theory Spec2Isabelle
  imports Complex_Main
begin

section \<open>Python values, exceptions and indexing\<close>

text \<open>
  The exceptions the program distinguishes. The handler of \<^verbatim>\<open>api/main.py\<close> catches
  \<^verbatim>\<open>Exception\<close>; the module-level loader catches \<^verbatim>\<open>FileNotFoundError\<close> only.
  \<^item> \<open>FileNotFoundError msg\<close>: an instance of FileNotFoundError (a subclass of Exception);
  \<^item> \<open>Exception msg\<close>: any other instance of Exception (ValueError, IndexError,
    UnpicklingError, EOFError, ...);
  \<^item> \<open>BaseException msg\<close>: an instance of BaseException that is not an Exception
    (KeyboardInterrupt, SystemExit).
  The string is \<^verbatim>\<open>str(e)\<close>.
\<close>

datatype py_exception =
    FileNotFoundError string
  | Exception string
  | BaseException string

fun str_exc :: "py_exception \<Rightarrow> string" where
  "str_exc (FileNotFoundError msg) = msg"
| "str_exc (Exception msg) = msg"
| "str_exc (BaseException msg) = msg"

fun isinstance_Exception :: "py_exception \<Rightarrow> bool" where
  "isinstance_Exception (FileNotFoundError _) = True"
| "isinstance_Exception (Exception _) = True"
| "isinstance_Exception (BaseException _) = False"

fun isinstance_FileNotFoundError :: "py_exception \<Rightarrow> bool" where
  "isinstance_FileNotFoundError (FileNotFoundError _) = True"
| "isinstance_FileNotFoundError (Exception _) = False"
| "isinstance_FileNotFoundError (BaseException _) = False"

text \<open>The values that occur in the dictionaries of the program.\<close>

datatype py_value = PyStr string | PyInt int | PyFloat real

type_synonym py_dict = "(string \<times> py_value) list"

text \<open>\<^verbatim>\<open>str(n)\<close> for an integer: decimal digits, a minus sign when negative.\<close>

function str_nat :: "nat \<Rightarrow> string" where
  "str_nat n =
     (if n < 10 then [''0123456789'' ! n]
      else str_nat (n div 10) @ [''0123456789'' ! (n mod 10)])"
  by pat_completeness auto
termination
  by (relation "measure id") auto

declare str_nat.simps [simp del]

definition str_int :: "int \<Rightarrow> string" where
  "str_int i = (if i < 0 then CHR ''-'' # str_nat (nat (- i)) else str_nat (nat i))"

text \<open>
  Indexing a one-dimensional numpy array (or a row of a two-dimensional one) with an
  integer: a negative index counts from the end, an index out of range raises IndexError.
\<close>

definition getitem :: "'a list \<Rightarrow> int \<Rightarrow> py_exception + 'a" where
  "getitem xs i =
     (if 0 \<le> i \<and> i < int (length xs) then Inr (xs ! nat i)
      else if i < 0 \<and> - int (length xs) \<le> i then Inr (xs ! nat (int (length xs) + i))
      else Inl (Exception (''index '' @ str_int i @
             '' is out of bounds for axis 0 with size '' @ str_nat (length xs))))"

section \<open>The request and the loaded artifacts\<close>

text \<open>\<^verbatim>\<open>class HeartDiseaseInput(BaseModel)\<close>: thirteen fields, all of them int but oldpeak.\<close>

record HeartDiseaseInput =
  age :: int
  sex :: int
  cp :: int
  trestbps :: int
  chol :: int
  fbs :: int
  restecg :: int
  thalach :: int
  exang :: int
  oldpeak :: real
  slope :: int
  ca :: int
  thal :: int

text \<open>\<^verbatim>\<open>data.dict()\<close>: the fields in the order of their declaration.\<close>

definition dict :: "HeartDiseaseInput \<Rightarrow> py_dict" where
  "dict d =
     [(''age'', PyInt (age d)), (''sex'', PyInt (sex d)), (''cp'', PyInt (cp d)),
      (''trestbps'', PyInt (trestbps d)), (''chol'', PyInt (chol d)), (''fbs'', PyInt (fbs d)),
      (''restecg'', PyInt (restecg d)), (''thalach'', PyInt (thalach d)),
      (''exang'', PyInt (exang d)), (''oldpeak'', PyFloat (oldpeak d)),
      (''slope'', PyInt (slope d)), (''ca'', PyInt (ca d)), (''thal'', PyInt (thal d))]"

text \<open>
  \<^verbatim>\<open>pd.DataFrame([...])\<close>: one dictionary per row. A numpy matrix is a list of rows.
  A float is a real number here: the program indexes, compares and copies the
  probabilities and does no arithmetic on them.
\<close>

type_synonym DataFrame = "py_dict list"
type_synonym ndarray = "real list list"

text \<open>
  An object returned by \<^verbatim>\<open>joblib.load\<close>. Python is dynamically typed, so the preprocessor
  and the model are objects of one type: their truth value (\<^verbatim>\<open>bool(obj)\<close>, which
  \<^verbatim>\<open>not obj\<close> negates) and the three methods the program calls on them. A method is a
  function of its argument that returns or raises; a method the object does not have
  raises (AttributeError, an Exception). predict returns the class labels, integers,
  one per row; predict_proba returns one row of class probabilities per row (so
  \<^verbatim>\<open>int\<close> and \<^verbatim>\<open>float\<close> of lines 121 and 122 change nothing). The type parameter is
  what transform is given:
  a DataFrame in \<^verbatim>\<open>api/main.py\<close>, a matrix in \<^verbatim>\<open>src/inference.py\<close>.
\<close>

record 'x artifact =
  truthy :: bool
  transform :: "'x \<Rightarrow> py_exception + ndarray"
  predict :: "ndarray \<Rightarrow> py_exception + int list"
  predict_proba :: "ndarray \<Rightarrow> py_exception + ndarray"

text \<open>\<^verbatim>\<open>not obj\<close> for a global that holds None or a loaded object.\<close>

fun py_not :: "'x artifact option \<Rightarrow> bool" where
  "py_not None = True"
| "py_not (Some obj) = (\<not> truthy obj)"

section \<open>The Prometheus metrics\<close>

text \<open>
  The five module-level metrics of \<^verbatim>\<open>api/main.py\<close>: two counters partitioned by a label
  value, a histogram (the values observed so far, oldest first; its bucket counts and sum
  are functions of them), and two gauges.
\<close>

record metrics =
  prediction_counter :: "string \<Rightarrow> nat"
  prediction_confidence :: "real list"
  prediction_errors :: "string \<Rightarrow> nat"
  active_requests :: int
  model_load_status :: int

text \<open>\<^verbatim>\<open>counter.labels(...=l).inc()\<close>, \<^verbatim>\<open>histogram.observe(v)\<close>.\<close>

definition inc_label :: "string \<Rightarrow> (string \<Rightarrow> nat) \<Rightarrow> (string \<Rightarrow> nat)" where
  "inc_label l c = c(l := c l + 1)"

definition observe :: "real \<Rightarrow> real list \<Rightarrow> real list" where
  "observe v h = h @ [v]"

section \<open>Loading the artifacts (api/main.py, lines 66 to 84)\<close>

definition preprocessor_path :: string where
  "preprocessor_path = ''models/preprocessor.joblib''"

definition model_path :: string where
  "model_path = ''mlruns/2/models/m-d588745fcc0b4960897a74ec63ecd840/artifacts/model.pkl''"

text \<open>
  The module's globals once the module has been executed. \<open>joblib_load\<close> is what
  \<^verbatim>\<open>joblib.load\<close> does for a path: it returns the object or raises. The second file is
  read only when the first was loaded. An exception that the except clause does not catch
  leaves the module level: the import fails and the process does not start (\<open>Inl\<close>).
\<close>

record 'x module_globals =
  preprocessor :: "'x artifact option"
  model :: "'x artifact option"
  module_metrics :: metrics

definition load_failed :: "py_exception \<Rightarrow> metrics \<Rightarrow> py_exception + 'x module_globals" where
  "load_failed e ms =
     (if isinstance_FileNotFoundError e
      then Inr \<lparr>preprocessor = None, model = None,
                module_metrics = ms\<lparr>model_load_status := 0\<rparr>\<rparr>
      else Inl e)"

definition load_artifacts ::
  "(string \<Rightarrow> py_exception + 'x artifact) \<Rightarrow> metrics \<Rightarrow> py_exception + 'x module_globals" where
  "load_artifacts joblib_load ms =
     (case joblib_load preprocessor_path of
        Inl e \<Rightarrow> load_failed e ms
      | Inr p \<Rightarrow>
          (case joblib_load model_path of
             Inl e \<Rightarrow> load_failed e ms
           | Inr m \<Rightarrow>
               Inr \<lparr>preprocessor = Some p, model = Some m,
                    module_metrics = ms\<lparr>model_load_status := 1\<rparr>\<rparr>))"

section \<open>The /predict handler (api/main.py, lines 90 to 140)\<close>

text \<open>Lines 117 to 122: the two model calls and the two index operations.\<close>

definition predict_and_confidence ::
  "'x artifact \<Rightarrow> ndarray \<Rightarrow> py_exception + (int \<times> real)" where
  "predict_and_confidence m processed_input =
     (case predict m processed_input of
        Inl e \<Rightarrow> Inl e
      | Inr prediction \<Rightarrow>
          (case predict_proba m processed_input of
             Inl e \<Rightarrow> Inl e
           | Inr prediction_proba \<Rightarrow>
               (case getitem prediction 0 of
                  Inl e \<Rightarrow> Inl e
                | Inr prediction_result \<Rightarrow>
                    (case getitem prediction_proba 0 of
                       Inl e \<Rightarrow> Inl e
                     | Inr row \<Rightarrow>
                         (case getitem row prediction_result of
                            Inl e \<Rightarrow> Inl e
                          | Inr confidence \<Rightarrow> Inr (prediction_result, confidence))))))"

text \<open>Lines 128 to 132, and the three error dictionaries.\<close>

definition success_response :: "int \<Rightarrow> real \<Rightarrow> py_dict" where
  "success_response prediction_result confidence =
     [(''prediction'',
         PyStr (if prediction_result = 1 then ''Heart Disease'' else ''No Heart Disease'')),
      (''prediction_label'', PyInt prediction_result),
      (''confidence'', PyFloat confidence)]"

definition not_loaded_response :: py_dict where
  "not_loaded_response =
     [(''error'', PyStr ''Model or preprocessor not loaded. Please check the server logs.'')]"

definition preprocessing_error_response :: "py_exception \<Rightarrow> py_dict" where
  "preprocessing_error_response e =
     [(''error'', PyStr (''Error during data preprocessing: '' @ str_exc e))]"

definition prediction_error_response :: "py_exception \<Rightarrow> py_dict" where
  "prediction_error_response e =
     [(''error'', PyStr (''Error during prediction: '' @ str_exc e))]"

definition inc_error :: "string \<Rightarrow> metrics \<Rightarrow> metrics" where
  "inc_error error_type ms = ms\<lparr>prediction_errors := inc_label error_type (prediction_errors ms)\<rparr>"

text \<open>
  Lines 116 to 138, the inner try of the prediction. The metrics are written after the
  last operation that can raise, so an exception finds them as they were. An exception
  that is not an Exception passes the except clause.
\<close>

definition make_prediction ::
  "'x artifact \<Rightarrow> ndarray \<Rightarrow> metrics \<Rightarrow> metrics \<times> (py_exception + py_dict)" where
  "make_prediction m processed_input ms =
     (case predict_and_confidence m processed_input of
        Inr (prediction_result, confidence) \<Rightarrow>
          (ms\<lparr>prediction_counter :=
                 inc_label (str_int prediction_result) (prediction_counter ms),
               prediction_confidence := observe confidence (prediction_confidence ms)\<rparr>,
           Inr (success_response prediction_result confidence))
      | Inl e \<Rightarrow>
          (if isinstance_Exception e
           then (inc_error ''prediction_error'' ms, Inr (prediction_error_response e))
           else (ms, Inl e)))"

text \<open>
  Lines 97 to 138, the body of the outer try. Where the test of line 99 fails, both
  globals hold an object, which the case distinction names.
\<close>

definition predict_body ::
  "DataFrame artifact option \<Rightarrow> DataFrame artifact option \<Rightarrow> metrics \<Rightarrow> HeartDiseaseInput
     \<Rightarrow> metrics \<times> (py_exception + py_dict)" where
  "predict_body pre mdl ms data =
     (if py_not mdl \<or> py_not pre
      then (inc_error ''model_not_loaded'' ms, Inr not_loaded_response)
      else
        (case (pre, mdl) of
           (Some p, Some m) \<Rightarrow>
             (let input_df = [dict data] in
              case transform p input_df of
                Inl e \<Rightarrow>
                  (if isinstance_Exception e
                   then (inc_error ''preprocessing_error'' ms,
                         Inr (preprocessing_error_response e))
                   else (ms, Inl e))
              | Inr processed_input \<Rightarrow> make_prediction m processed_input ms)
         | _ \<Rightarrow> (inc_error ''model_not_loaded'' ms, Inr not_loaded_response)))"

text \<open>
  The handler: the gauge is incremented, the body runs, and the finally clause decrements
  the gauge whether the body returned a dictionary (\<open>Inr\<close>) or raised (\<open>Inl\<close>).
\<close>

definition api_predict ::
  "DataFrame artifact option \<Rightarrow> DataFrame artifact option \<Rightarrow> metrics \<Rightarrow> HeartDiseaseInput
     \<Rightarrow> metrics \<times> (py_exception + py_dict)" where
  "api_predict pre mdl ms data =
     (let ms1 = ms\<lparr>active_requests := active_requests ms + 1\<rparr>;
          (ms2, result) = predict_body pre mdl ms1 data
      in (ms2\<lparr>active_requests := active_requests ms2 - 1\<rparr>, result))"

text \<open>
  What the client sees: FastAPI sends a returned dictionary as the JSON body of a
  response with status 200, and answers 500 when the handler raises.
\<close>

definition http_status :: "py_exception + py_dict \<Rightarrow> nat" where
  "http_status result = (case result of Inr _ \<Rightarrow> 200 | Inl _ \<Rightarrow> 500)"

definition keys :: "py_dict \<Rightarrow> string set" where
  "keys d = fst ` set d"

section \<open>The handler as the sequence of its metric operations\<close>

text \<open>
  The five kinds of write that \<^verbatim>\<open>api/main.py\<close> makes to its metrics while it serves:
  \<^verbatim>\<open>active_requests.inc()\<close>, \<^verbatim>\<open>active_requests.dec()\<close>,
  \<^verbatim>\<open>prediction_errors.labels(error_type=t).inc()\<close>,
  \<^verbatim>\<open>prediction_counter.labels(prediction_label=l).inc()\<close> and
  \<^verbatim>\<open>prediction_confidence.observe(v)\<close>; what each does to the metrics; and a sequence
  of them executed from left to right.
\<close>

datatype metric_op =
    ActiveRequestsInc
  | ActiveRequestsDec
  | PredictionErrorsInc string
  | PredictionCounterInc string
  | PredictionConfidenceObserve real

fun apply_op :: "metric_op \<Rightarrow> metrics \<Rightarrow> metrics" where
  "apply_op ActiveRequestsInc ms = ms\<lparr>active_requests := active_requests ms + 1\<rparr>"
| "apply_op ActiveRequestsDec ms = ms\<lparr>active_requests := active_requests ms - 1\<rparr>"
| "apply_op (PredictionErrorsInc error_type) ms = inc_error error_type ms"
| "apply_op (PredictionCounterInc l) ms =
     ms\<lparr>prediction_counter := inc_label l (prediction_counter ms)\<rparr>"
| "apply_op (PredictionConfidenceObserve v) ms =
     ms\<lparr>prediction_confidence := observe v (prediction_confidence ms)\<rparr>"

fun run_ops :: "metric_op list \<Rightarrow> metrics \<Rightarrow> metrics" where
  "run_ops [] ms = ms"
| "run_ops (op # ops) ms = run_ops ops (apply_op op ms)"

text \<open>
  Lines 116 to 138 again, now with the metric operations the block performs, in the order
  of the source, beside its result: lines 125 and 126 on success, line 137 in the except
  clause, none when an exception that is not an Exception passes the clause.
\<close>

definition make_prediction_ops ::
  "'x artifact \<Rightarrow> ndarray \<Rightarrow> metric_op list \<times> (py_exception + py_dict)" where
  "make_prediction_ops m processed_input =
     (case predict_and_confidence m processed_input of
        Inr (prediction_result, confidence) \<Rightarrow>
          ([PredictionCounterInc (str_int prediction_result),
            PredictionConfidenceObserve confidence],
           Inr (success_response prediction_result confidence))
      | Inl e \<Rightarrow>
          (if isinstance_Exception e
           then ([PredictionErrorsInc ''prediction_error''], Inr (prediction_error_response e))
           else ([], Inl e)))"

text \<open>Lines 97 to 138: line 101, line 112 or the operations of the prediction block.\<close>

definition predict_body_ops ::
  "DataFrame artifact option \<Rightarrow> DataFrame artifact option \<Rightarrow> HeartDiseaseInput
     \<Rightarrow> metric_op list \<times> (py_exception + py_dict)" where
  "predict_body_ops pre mdl data =
     (if py_not mdl \<or> py_not pre
      then ([PredictionErrorsInc ''model_not_loaded''], Inr not_loaded_response)
      else
        (case (pre, mdl) of
           (Some p, Some m) \<Rightarrow>
             (let input_df = [dict data] in
              case transform p input_df of
                Inl e \<Rightarrow>
                  (if isinstance_Exception e
                   then ([PredictionErrorsInc ''preprocessing_error''],
                         Inr (preprocessing_error_response e))
                   else ([], Inl e))
              | Inr processed_input \<Rightarrow> make_prediction_ops m processed_input)
         | _ \<Rightarrow> ([PredictionErrorsInc ''model_not_loaded''], Inr not_loaded_response)))"

text \<open>
  Lines 95 to 140, the whole handler: line 95 comes first, then the operations of the try
  body, then line 140 in the finally clause, which runs when the body returned (\<open>Inr\<close>)
  and when it raised (\<open>Inl\<close>) alike.
\<close>

definition api_predict_ops ::
  "DataFrame artifact option \<Rightarrow> DataFrame artifact option \<Rightarrow> HeartDiseaseInput
     \<Rightarrow> metric_op list \<times> (py_exception + py_dict)" where
  "api_predict_ops pre mdl data =
     (let (ops, result) = predict_body_ops pre mdl data
      in (ActiveRequestsInc # ops @ [ActiveRequestsDec], result))"

section \<open>src/inference.py\<close>

text \<open>
  \<^verbatim>\<open>predict(model, scaler, input_data)\<close>: the list becomes a matrix of one row; no
  exception is caught. \<^verbatim>\<open>.max()\<close> is the maximum over all entries of the probability
  matrix and raises ValueError on a matrix without entries.
\<close>

definition array_max :: "ndarray \<Rightarrow> py_exception + real" where
  "array_max a =
     (if concat a = []
      then Inl (Exception
        ''zero-size array to reduction operation maximum which has no identity'')
      else Inr (Max (set (concat a))))"

definition inference_predict ::
  "'y artifact \<Rightarrow> ndarray artifact \<Rightarrow> real list \<Rightarrow> py_exception + (int \<times> real)" where
  "inference_predict m scaler input_data =
     (let input_array = [input_data] in
      case transform scaler input_array of
        Inl e \<Rightarrow> Inl e
      | Inr input_scaled \<Rightarrow>
          (case predict m input_scaled of
             Inl e \<Rightarrow> Inl e
           | Inr p \<Rightarrow>
               (case getitem p 0 of
                  Inl e \<Rightarrow> Inl e
                | Inr prediction \<Rightarrow>
                    (case predict_proba m input_scaled of
                       Inl e \<Rightarrow> Inl e
                     | Inr proba \<Rightarrow>
                         (case array_max proba of
                            Inl e \<Rightarrow> Inl e
                          | Inr confidence \<Rightarrow> Inr (prediction, confidence))))))"

section \<open>Concrete requests, artifacts and files\<close>

text \<open>The request of the specification's example, and the metrics as the module creates them.\<close>

definition example_input :: HeartDiseaseInput where
  "example_input =
     \<lparr>age = 63, sex = 1, cp = 3, trestbps = 145, chol = 233, fbs = 1, restecg = 0,
      thalach = 150, exang = 0, oldpeak = 23 / 10, slope = 0, ca = 0, thal = 1\<rparr>"

definition initial_metrics :: metrics where
  "initial_metrics =
     \<lparr>prediction_counter = (\<lambda>_. 0), prediction_confidence = [],
      prediction_errors = (\<lambda>_. 0), active_requests = 0, model_load_status = 0\<rparr>"

text \<open>
  A preprocessor that returns one row of features, one whose transform raises a
  ValueError, and one whose transform is interrupted (KeyboardInterrupt, which is not an
  Exception). A preprocessor has no predict and no predict_proba.
\<close>

definition no_attribute :: "string \<Rightarrow> py_exception + 'a" where
  "no_attribute name = Inl (Exception (''object has no attribute '' @ name))"

definition example_preprocessor :: "DataFrame artifact" where
  "example_preprocessor =
     \<lparr>truthy = True,
      transform = (\<lambda>df. Inr [[1, 0, 1]]),
      predict = (\<lambda>x. no_attribute ''predict''),
      predict_proba = (\<lambda>x. no_attribute ''predict_proba'')\<rparr>"

definition failing_preprocessor :: "DataFrame artifact" where
  "failing_preprocessor =
     \<lparr>truthy = True,
      transform = (\<lambda>df. Inl (Exception ''columns are missing'')),
      predict = (\<lambda>x. no_attribute ''predict''),
      predict_proba = (\<lambda>x. no_attribute ''predict_proba'')\<rparr>"

definition interrupted_preprocessor :: "DataFrame artifact" where
  "interrupted_preprocessor =
     \<lparr>truthy = True,
      transform = (\<lambda>df. Inl (BaseException ''KeyboardInterrupt'')),
      predict = (\<lambda>x. no_attribute ''predict''),
      predict_proba = (\<lambda>x. no_attribute ''predict_proba'')\<rparr>"

text \<open>
  A binary classifier that predicts class 1 with probability 4/5, a classifier whose
  predict raises, and a classifier over the classes 0, 1 and 2 that predicts class 2.
\<close>

definition binary_model :: "DataFrame artifact" where
  "binary_model =
     \<lparr>truthy = True,
      transform = (\<lambda>df. no_attribute ''transform''),
      predict = (\<lambda>x. Inr [1]),
      predict_proba = (\<lambda>x. Inr [[1 / 5, 4 / 5]])\<rparr>"

definition failing_model :: "DataFrame artifact" where
  "failing_model =
     \<lparr>truthy = True,
      transform = (\<lambda>df. no_attribute ''transform''),
      predict = (\<lambda>x. Inl (Exception ''X has 3 features, but 13 are expected'')),
      predict_proba = (\<lambda>x. Inr [[1 / 5, 4 / 5]])\<rparr>"

definition three_class_model :: "DataFrame artifact" where
  "three_class_model =
     \<lparr>truthy = True,
      transform = (\<lambda>df. no_attribute ''transform''),
      predict = (\<lambda>x. Inr [2]),
      predict_proba = (\<lambda>x. Inr [[1 / 5, 3 / 10, 1 / 2]])\<rparr>"

text \<open>
  A scaler for \<^verbatim>\<open>src/inference.py\<close> that returns the features that
  \<open>example_preprocessor\<close> returns.
\<close>

definition example_scaler :: "ndarray artifact" where
  "example_scaler =
     \<lparr>truthy = True,
      transform = (\<lambda>a. Inr [[1, 0, 1]]),
      predict = (\<lambda>x. no_attribute ''predict''),
      predict_proba = (\<lambda>x. no_attribute ''predict_proba'')\<rparr>"

text \<open>
  Three file systems: no artifact file exists; the preprocessor file exists and the
  model file does not; the preprocessor file exists but is not a pickle (joblib raises
  an UnpicklingError, which is not a FileNotFoundError).
\<close>

definition no_files :: "string \<Rightarrow> py_exception + DataFrame artifact" where
  "no_files path = Inl (FileNotFoundError (''No such file or directory: '' @ path))"

definition model_file_missing :: "string \<Rightarrow> py_exception + DataFrame artifact" where
  "model_file_missing path =
     (if path = preprocessor_path then Inr example_preprocessor
      else Inl (FileNotFoundError (''No such file or directory: '' @ path)))"

definition corrupt_preprocessor_file :: "string \<Rightarrow> py_exception + DataFrame artifact" where
  "corrupt_preprocessor_file path =
     (if path = preprocessor_path then Inl (Exception ''invalid load key'')
      else Inr binary_model)"

section \<open>How the handler runs\<close>

lemma getitem_0: "getitem xs 0 = Inr y \<longleftrightarrow> (\<exists>ys. xs = y # ys)"
  by (cases xs) (auto simp add: getitem_def)

lemma predict_and_confidence_Inr:
  "predict_and_confidence m x = Inr (k, c) \<longleftrightarrow>
     (\<exists>prediction proba row.
        predict m x = Inr prediction \<and> predict_proba m x = Inr proba \<and>
        getitem prediction 0 = Inr k \<and> getitem proba 0 = Inr row \<and> getitem row k = Inr c)"
  by (auto simp add: predict_and_confidence_def split: sum.splits)

lemma fst_api_predict:
  "fst (api_predict pre mdl ms data) =
     (fst (predict_body pre mdl (ms\<lparr>active_requests := active_requests ms + 1\<rparr>) data))
       \<lparr>active_requests :=
          active_requests (fst (predict_body pre mdl
            (ms\<lparr>active_requests := active_requests ms + 1\<rparr>) data)) - 1\<rparr>"
  by (simp add: api_predict_def Let_def case_prod_beta)

lemma snd_api_predict:
  "snd (api_predict pre mdl ms data) =
     snd (predict_body pre mdl (ms\<lparr>active_requests := active_requests ms + 1\<rparr>) data)"
  by (simp add: api_predict_def Let_def case_prod_beta)

lemma snd_predict_body_metrics:
  "snd (predict_body pre mdl ms1 data) = snd (predict_body pre mdl ms2 data)"
  by (simp add: predict_body_def make_prediction_def
      split: option.splits sum.splits prod.splits)

lemma predict_body_active_requests:
  "active_requests (fst (predict_body pre mdl ms data)) = active_requests ms"
  by (simp add: predict_body_def make_prediction_def inc_error_def
      split: option.splits sum.splits prod.splits)

lemma predict_body_loaded:
  "\<not> py_not (Some m) \<Longrightarrow> \<not> py_not (Some p) \<Longrightarrow>
   predict_body (Some p) (Some m) ms data =
     (case transform p [dict data] of
        Inl e \<Rightarrow>
          (if isinstance_Exception e
           then (inc_error ''preprocessing_error'' ms, Inr (preprocessing_error_response e))
           else (ms, Inl e))
      | Inr processed_input \<Rightarrow> make_prediction m processed_input ms)"
  by (simp add: predict_body_def)

lemma api_predict_not_loaded:
  "py_not mdl \<or> py_not pre \<Longrightarrow>
   api_predict pre mdl ms data = (inc_error ''model_not_loaded'' ms, Inr not_loaded_response)"
  by (simp add: api_predict_def predict_body_def inc_error_def)

text \<open>
  The three ways a request ends: the success dictionary with both prediction metrics
  written, an error dictionary with one error counter incremented, or an exception that
  is not an Exception, with every metric as it was.
\<close>

lemma api_predict_outcomes:
  "(\<exists>p m x k c. pre = Some p \<and> mdl = Some m \<and> truthy p \<and> truthy m \<and>
        transform p [dict data] = Inr x \<and> predict_and_confidence m x = Inr (k, c) \<and>
        api_predict pre mdl ms data =
          (ms\<lparr>prediction_counter := inc_label (str_int k) (prediction_counter ms),
              prediction_confidence := observe c (prediction_confidence ms)\<rparr>,
           Inr (success_response k c)))
   \<or> (\<exists>error_type msg.
        api_predict pre mdl ms data = (inc_error error_type ms, Inr [(''error'', PyStr msg)]))
   \<or> (\<exists>e. \<not> isinstance_Exception e \<and> api_predict pre mdl ms data = (ms, Inl e))"
proof (cases "py_not mdl \<or> py_not pre")
  case True
  then have "api_predict pre mdl ms data =
      (inc_error ''model_not_loaded'' ms, Inr not_loaded_response)"
    by (rule api_predict_not_loaded)
  then show ?thesis unfolding not_loaded_response_def by blast
next
  case False
  then obtain p m where pm: "pre = Some p" "mdl = Some m" "truthy p" "truthy m"
    by (cases pre; cases mdl) auto
  show ?thesis
  proof (cases "transform p [dict data]")
    case (Inl e)
    with pm show ?thesis
      by (cases "isinstance_Exception e")
         (auto simp add: api_predict_def predict_body_def inc_error_def
            preprocessing_error_response_def)
  next
    case (Inr x)
    show ?thesis
    proof (cases "predict_and_confidence m x")
      case (Inl e)
      with pm Inr show ?thesis
        by (cases "isinstance_Exception e")
           (auto simp add: api_predict_def predict_body_def make_prediction_def inc_error_def
              prediction_error_response_def)
    next
      case inr: (Inr kc)
      obtain k c where "kc = (k, c)" by (cases kc)
      with pm Inr inr show ?thesis
        by (simp add: api_predict_def predict_body_def make_prediction_def)
    qed
  qed
qed

lemma api_predict_success:
  assumes "\<not> py_not (Some m)" "\<not> py_not (Some p)"
    and "transform p [dict data] = Inr x"
    and "predict_and_confidence m x = Inr (k, c)"
  shows "api_predict (Some p) (Some m) ms data =
     (ms\<lparr>prediction_counter := inc_label (str_int k) (prediction_counter ms),
         prediction_confidence := observe c (prediction_confidence ms)\<rparr>,
      Inr (success_response k c))"
  using assms by (simp add: api_predict_def predict_body_loaded make_prediction_def)

lemma api_predict_failed_prediction:
  assumes "\<not> py_not (Some m)" "\<not> py_not (Some p)"
    and "transform p [dict data] = Inr x"
    and "predict_and_confidence m x = Inl e"
  shows "api_predict (Some p) (Some m) ms data =
     (if isinstance_Exception e
      then (inc_error ''prediction_error'' ms, Inr (prediction_error_response e))
      else (ms, Inl e))"
  using assms
  by (simp add: api_predict_def predict_body_loaded make_prediction_def inc_error_def)

lemma map_of_success_response:
  "map_of (success_response k c) ''prediction'' =
     Some (PyStr (if k = 1 then ''Heart Disease'' else ''No Heart Disease''))"
  "map_of (success_response k c) ''prediction_label'' = Some (PyInt k)"
  "map_of (success_response k c) ''confidence'' = Some (PyFloat c)"
  "map_of (success_response k c) ''error'' = None"
  by (simp_all add: success_response_def)

lemma keys_success_response:
  "keys (success_response k c) = {''prediction'', ''prediction_label'', ''confidence''}"
  by (simp add: keys_def success_response_def)

lemma api_predict_failed_transform:
  assumes "\<not> py_not (Some m)" "\<not> py_not (Some p)"
    and "transform p [dict data] = Inl e"
  shows "api_predict (Some p) (Some m) ms data =
     (if isinstance_Exception e
      then (inc_error ''preprocessing_error'' ms, Inr (preprocessing_error_response e))
      else (ms, Inl e))"
  using assms by (simp add: api_predict_def predict_body_loaded inc_error_def)

lemma keys_error: "keys [(''error'', v)] = {''error''}"
  by (simp add: keys_def)

lemma error_not_success_key:
  "''error'' \<notin> {''prediction'', ''prediction_label'', ''confidence''}"
  by simp

lemma success_keys_not_error:
  "{''prediction'', ''prediction_label'', ''confidence''} \<noteq> {''error''}"
proof
  assume "{''prediction'', ''prediction_label'', ''confidence''} = {''error''}"
  then have "''error'' \<in> {''prediction'', ''prediction_label'', ''confidence''}"
    by (simp only: singletonI)
  with error_not_success_key show False ..
qed

lemma getitem_in_range: "0 \<le> i \<Longrightarrow> nat i < length xs \<Longrightarrow> getitem xs i = Inr (xs ! nat i)"
  by (simp add: getitem_def)

lemma array_max_row:
  assumes "nat k < length row" "\<forall>y\<in>set row. y \<le> row ! nat k"
  shows "array_max [row] = Inr (row ! nat k)"
proof -
  from assms(1) have "row ! nat k \<in> set row" by simp
  with assms(2) have "Max (set row) = row ! nat k"
    by (intro Max_eqI) auto
  moreover from assms(1) have "row \<noteq> []" by auto
  ultimately show ?thesis by (simp add: array_max_def)
qed

text \<open>
  A returned dictionary that has one of the three success keys is the success dictionary
  of a run that went through both model calls.
\<close>

lemma api_predict_returns_success:
  assumes "snd (api_predict pre mdl ms data) = Inr resp"
    and "map_of resp ''confidence'' \<noteq> None \<or> map_of resp ''prediction_label'' \<noteq> None
         \<or> map_of resp ''prediction'' \<noteq> None"
  shows "\<exists>p m x k c. pre = Some p \<and> mdl = Some m \<and> truthy p \<and> truthy m \<and>
        transform p [dict data] = Inr x \<and> predict_and_confidence m x = Inr (k, c) \<and>
        resp = success_response k c \<and>
        fst (api_predict pre mdl ms data) =
          ms\<lparr>prediction_counter := inc_label (str_int k) (prediction_counter ms),
              prediction_confidence := observe c (prediction_confidence ms)\<rparr>"
  using api_predict_outcomes [of pre mdl data ms] assms
  by (elim disjE exE conjE) auto

text \<open>
  The two models of the handler agree: executing the sequence of metric operations on
  the metrics gives the metrics that the state-passing handler returns, with the same
  result.
\<close>

lemma run_ops_append: "run_ops (xs @ ys) ms = run_ops ys (run_ops xs ms)"
  by (induction xs arbitrary: ms) simp_all

lemma run_ops_active_requests:
  "ActiveRequestsInc \<notin> set ops \<Longrightarrow> ActiveRequestsDec \<notin> set ops \<Longrightarrow>
   active_requests (run_ops ops ms) = active_requests ms"
proof (induction ops arbitrary: ms)
  case Nil
  then show ?case by simp
next
  case (Cons op ops)
  then have "active_requests (apply_op op ms) = active_requests ms"
    by (cases op) (simp_all add: inc_error_def)
  with Cons show ?case by simp
qed

lemma predict_body_ops_no_gauge:
  "ActiveRequestsInc \<notin> set (fst (predict_body_ops pre mdl data))"
  "ActiveRequestsDec \<notin> set (fst (predict_body_ops pre mdl data))"
  by (simp_all add: predict_body_ops_def make_prediction_ops_def
      split: option.splits sum.splits prod.splits)

lemma fst_api_predict_ops:
  "fst (api_predict_ops pre mdl data) =
     ActiveRequestsInc # fst (predict_body_ops pre mdl data) @ [ActiveRequestsDec]"
  by (simp add: api_predict_ops_def case_prod_beta)

lemma make_prediction_run_ops:
  "make_prediction m x ms =
     (run_ops (fst (make_prediction_ops m x)) ms, snd (make_prediction_ops m x))"
  by (simp add: make_prediction_def make_prediction_ops_def split: sum.splits prod.splits)

lemma predict_body_run_ops:
  "predict_body pre mdl ms data =
     (run_ops (fst (predict_body_ops pre mdl data)) ms, snd (predict_body_ops pre mdl data))"
  by (simp add: predict_body_def predict_body_ops_def make_prediction_run_ops
      split: option.splits sum.splits)

lemma api_predict_run_ops:
  "api_predict pre mdl ms data =
     (run_ops (fst (api_predict_ops pre mdl data)) ms, snd (api_predict_ops pre mdl data))"
  by (simp add: api_predict_def api_predict_ops_def predict_body_run_ops run_ops_append
      case_prod_beta Let_def)

lemma api_predict_active_requests:
  "active_requests (fst (api_predict pre mdl ms data)) = active_requests ms"
  by (simp add: fst_api_predict predict_body_active_requests)

section \<open>The claims\<close>

text \<open>
  C1. Where the artifacts are loaded, transform returns and both model calls return, the
  confidence in the dictionary that the handler returns is the entry of the first row of
  predict_proba at the index given by the first entry of predict, read as Python reads an
  index. There is a confidence in the handler's result exactly when both index
  operations succeed.
\<close>

theorem confidence_of_predicted_class:
  assumes "\<not> py_not (Some m)" "\<not> py_not (Some p)"
    and "transform p [dict data] = Inr x"
    and "predict m x = Inr prediction"
    and "predict_proba m x = Inr proba"
  shows "(case snd (api_predict (Some p) (Some m) ms data) of
            Inr resp \<Rightarrow> map_of resp ''confidence''
          | Inl e \<Rightarrow> None) =
         (case getitem prediction 0 of
            Inl e \<Rightarrow> None
          | Inr prediction_result \<Rightarrow>
              (case getitem proba 0 of
                 Inl e \<Rightarrow> None
               | Inr row \<Rightarrow>
                   (case getitem row prediction_result of
                      Inl e \<Rightarrow> None
                    | Inr c \<Rightarrow> Some (PyFloat c))))"
proof (cases "predict_and_confidence m x")
  case (Inl e)
  then have "api_predict (Some p) (Some m) ms data =
     (if isinstance_Exception e
      then (inc_error ''prediction_error'' ms, Inr (prediction_error_response e))
      else (ms, Inl e))"
    using assms(1-3) by (rule api_predict_failed_prediction [rotated 3])
  then have "(case snd (api_predict (Some p) (Some m) ms data) of
            Inr resp \<Rightarrow> map_of resp ''confidence'' | Inl e \<Rightarrow> None) = None"
    by (simp add: prediction_error_response_def)
  moreover from Inl assms(4,5) have "(case getitem prediction 0 of
            Inl e \<Rightarrow> None
          | Inr prediction_result \<Rightarrow>
              (case getitem proba 0 of
                 Inl e \<Rightarrow> None
               | Inr row \<Rightarrow>
                   (case getitem row prediction_result of
                      Inl e \<Rightarrow> None
                    | Inr c \<Rightarrow> Some (PyFloat c)))) = None"
    by (auto simp add: predict_and_confidence_def split: sum.splits)
  ultimately show ?thesis by simp
next
  case (Inr kc)
  obtain k c where kc: "kc = (k, c)" by (cases kc)
  with Inr have "predict_and_confidence m x = Inr (k, c)" by simp
  then have "snd (api_predict (Some p) (Some m) ms data) = Inr (success_response k c)"
    by (simp add: api_predict_success [OF assms(1-3)])
  moreover from Inr kc assms(4,5) have "getitem prediction 0 = Inr k"
    and "\<exists>row. getitem proba 0 = Inr row \<and> getitem row k = Inr c"
    by (auto simp add: predict_and_confidence_Inr)
  ultimately show ?thesis
    by (auto simp add: map_of_success_response)
qed

theorem confidence_of_predicted_class_witness:
  "(case snd (api_predict (Some example_preprocessor) (Some binary_model) initial_metrics
            example_input) of
      Inr resp \<Rightarrow> map_of resp ''confidence''
    | Inl e \<Rightarrow> None) = Some (PyFloat (4 / 5))"
proof -
  have h1: "\<not> py_not (Some binary_model)" by (simp add: binary_model_def)
  have h2: "\<not> py_not (Some example_preprocessor)" by (simp add: example_preprocessor_def)
  have h3: "transform example_preprocessor [dict example_input] = Inr [[1, 0, 1]]"
    by (simp add: example_preprocessor_def)
  have h4: "predict binary_model [[1, 0, 1]] = Inr [1]" by (simp add: binary_model_def)
  have h5: "predict_proba binary_model [[1, 0, 1]] = Inr [[1 / 5, 4 / 5]]"
    by (simp add: binary_model_def)
  show ?thesis
    using confidence_of_predicted_class [OF h1 h2 h3 h4 h5, of initial_metrics]
    by (simp add: getitem_def)
qed

text \<open>
  C2. A dictionary that the handler returns has exactly one of the two shapes: its keys
  are prediction, prediction_label and confidence, or it is the dictionary of the one
  key error with a string, and it never has the key error together with one of the
  three success keys; FastAPI sends it with status 200. Every pipeline failure ends in the error
  dictionary, returned and not raised: artifacts that are not loaded, an Exception
  raised by transform, an Exception raised in the prediction block. A request without a
  failure ends in the success dictionary. (An exception that is not an Exception, a
  KeyboardInterrupt for one, is no pipeline failure: the handler returns nothing then.)
\<close>

theorem response_shape:
  "(\<forall>resp. snd (api_predict pre mdl ms data) = Inr resp \<longrightarrow>
      (keys resp = {''prediction'', ''prediction_label'', ''confidence''} \<or>
       (\<exists>msg. resp = [(''error'', PyStr msg)])) \<and>
      \<not> (''error'' \<in> keys resp \<and>
         (''prediction'' \<in> keys resp \<or> ''prediction_label'' \<in> keys resp \<or>
          ''confidence'' \<in> keys resp)) \<and>
      http_status (snd (api_predict pre mdl ms data)) = 200) \<and>
   (py_not mdl \<or> py_not pre \<longrightarrow>
      (\<exists>msg. snd (api_predict pre mdl ms data) = Inr [(''error'', PyStr msg)])) \<and>
   (\<forall>p m e. pre = Some p \<and> mdl = Some m \<and> \<not> py_not mdl \<and> \<not> py_not pre \<and>
      transform p [dict data] = Inl e \<and> isinstance_Exception e \<longrightarrow>
      (\<exists>msg. snd (api_predict pre mdl ms data) = Inr [(''error'', PyStr msg)])) \<and>
   (\<forall>p m x e. pre = Some p \<and> mdl = Some m \<and> \<not> py_not mdl \<and> \<not> py_not pre \<and>
      transform p [dict data] = Inr x \<and> predict_and_confidence m x = Inl e \<and>
      isinstance_Exception e \<longrightarrow>
      (\<exists>msg. snd (api_predict pre mdl ms data) = Inr [(''error'', PyStr msg)])) \<and>
   (\<forall>p m x k c. pre = Some p \<and> mdl = Some m \<and> \<not> py_not mdl \<and> \<not> py_not pre \<and>
      transform p [dict data] = Inr x \<and> predict_and_confidence m x = Inr (k, c) \<longrightarrow>
      (\<exists>resp. snd (api_predict pre mdl ms data) = Inr resp \<and>
         keys resp = {''prediction'', ''prediction_label'', ''confidence''}))"
proof (intro conjI allI impI)
  fix resp
  assume r: "snd (api_predict pre mdl ms data) = Inr resp"
  from api_predict_outcomes [of pre mdl data ms] r
  have shape: "(\<exists>k c. resp = success_response k c) \<or> (\<exists>msg. resp = [(''error'', PyStr msg)])"
    by (elim disjE exE conjE) auto
  then show "keys resp = {''prediction'', ''prediction_label'', ''confidence''} \<or>
       (\<exists>msg. resp = [(''error'', PyStr msg)])"
    by (auto simp add: keys_success_response)
  from shape show "\<not> (''error'' \<in> keys resp \<and>
         (''prediction'' \<in> keys resp \<or> ''prediction_label'' \<in> keys resp \<or>
          ''confidence'' \<in> keys resp))"
    by (auto simp add: keys_success_response keys_error)
  from r show "http_status (snd (api_predict pre mdl ms data)) = 200"
    by (simp add: http_status_def)
next
  assume "py_not mdl \<or> py_not pre"
  then show "\<exists>msg. snd (api_predict pre mdl ms data) = Inr [(''error'', PyStr msg)]"
    by (simp add: api_predict_not_loaded not_loaded_response_def)
next
  fix p m e
  assume a: "pre = Some p \<and> mdl = Some m \<and> \<not> py_not mdl \<and> \<not> py_not pre \<and>
      transform p [dict data] = Inl e \<and> isinstance_Exception e"
  then have l: "\<not> py_not (Some m)" "\<not> py_not (Some p)"
    and t: "transform p [dict data] = Inl e" and e: "isinstance_Exception e"
    by auto
  from a e show "\<exists>msg. snd (api_predict pre mdl ms data) = Inr [(''error'', PyStr msg)]"
    by (simp add: api_predict_failed_transform [OF l t] preprocessing_error_response_def)
next
  fix p m x e
  assume a: "pre = Some p \<and> mdl = Some m \<and> \<not> py_not mdl \<and> \<not> py_not pre \<and>
      transform p [dict data] = Inr x \<and> predict_and_confidence m x = Inl e \<and>
      isinstance_Exception e"
  then have l: "\<not> py_not (Some m)" "\<not> py_not (Some p)"
    and t: "transform p [dict data] = Inr x" and f: "predict_and_confidence m x = Inl e"
    and e: "isinstance_Exception e"
    by auto
  from a e show "\<exists>msg. snd (api_predict pre mdl ms data) = Inr [(''error'', PyStr msg)]"
    by (simp add: api_predict_failed_prediction [OF l t f] prediction_error_response_def)
next
  fix p m x k c
  assume a: "pre = Some p \<and> mdl = Some m \<and> \<not> py_not mdl \<and> \<not> py_not pre \<and>
      transform p [dict data] = Inr x \<and> predict_and_confidence m x = Inr (k, c)"
  then have l: "\<not> py_not (Some m)" "\<not> py_not (Some p)"
    and t: "transform p [dict data] = Inr x" and f: "predict_and_confidence m x = Inr (k, c)"
    by auto
  from a show "\<exists>resp. snd (api_predict pre mdl ms data) = Inr resp \<and>
         keys resp = {''prediction'', ''prediction_label'', ''confidence''}"
    by (simp add: api_predict_success [OF l t f] keys_success_response)
qed

theorem response_shape_witness:
  "(\<exists>msg. snd (api_predict (Some example_preprocessor) (Some failing_model) initial_metrics
       example_input) = Inr [(''error'', PyStr msg)]) \<and>
   http_status (snd (api_predict (Some example_preprocessor) (Some failing_model)
       initial_metrics example_input)) = 200"
proof -
  have h: "Some example_preprocessor = Some example_preprocessor \<and>
      Some failing_model = Some failing_model \<and>
      \<not> py_not (Some failing_model) \<and> \<not> py_not (Some example_preprocessor) \<and>
      transform example_preprocessor [dict example_input] = Inr [[1, 0, 1]] \<and>
      predict_and_confidence failing_model [[1, 0, 1]] =
        Inl (Exception ''X has 3 features, but 13 are expected'') \<and>
      isinstance_Exception (Exception ''X has 3 features, but 13 are expected'')"
    by (simp add: example_preprocessor_def failing_model_def predict_and_confidence_def)
  note shape = response_shape [of "Some example_preprocessor" "Some failing_model"
      initial_metrics example_input]
  have "\<exists>msg. snd (api_predict (Some example_preprocessor) (Some failing_model)
      initial_metrics example_input) = Inr [(''error'', PyStr msg)]"
    using shape [THEN conjunct2, THEN conjunct2, THEN conjunct2, THEN conjunct1,
        rule_format, OF h] .
  then obtain msg where m: "snd (api_predict (Some example_preprocessor) (Some failing_model)
      initial_metrics example_input) = Inr [(''error'', PyStr msg)]" ..
  have "http_status (snd (api_predict (Some example_preprocessor) (Some failing_model)
       initial_metrics example_input)) = 200"
    using shape [THEN conjunct1, rule_format, OF m] by simp
  with m show ?thesis by simp
qed

text \<open>
  C3. On every execution of the handler, whatever the request, the artifacts and the
  outcome (the success dictionary, an error dictionary, or an exception that leaves the
  body), the metric operations it performs are: the increment of the in-flight gauge
  first, then the operations of the body, none of which is an increment or a decrement of
  the gauge, then the decrement of the gauge last. So the gauge is incremented exactly
  once and, after that, decremented exactly once; it is one above its starting value
  until the decrement, and back at its starting value after it.
\<close>

theorem active_requests_inc_once_dec_once:
  "(\<exists>body_ops. fst (api_predict_ops pre mdl data) =
        ActiveRequestsInc # body_ops @ [ActiveRequestsDec] \<and>
      ActiveRequestsInc \<notin> set body_ops \<and> ActiveRequestsDec \<notin> set body_ops) \<and>
   count_list (fst (api_predict_ops pre mdl data)) ActiveRequestsInc = 1 \<and>
   count_list (fst (api_predict_ops pre mdl data)) ActiveRequestsDec = 1 \<and>
   active_requests (run_ops (butlast (fst (api_predict_ops pre mdl data))) ms) =
     active_requests ms + 1 \<and>
   active_requests (run_ops (fst (api_predict_ops pre mdl data)) ms) = active_requests ms"
proof -
  define body_ops where "body_ops = fst (predict_body_ops pre mdl data)"
  have ops: "fst (api_predict_ops pre mdl data) =
      ActiveRequestsInc # body_ops @ [ActiveRequestsDec]"
    by (simp add: body_ops_def fst_api_predict_ops)
  have free: "ActiveRequestsInc \<notin> set body_ops" "ActiveRequestsDec \<notin> set body_ops"
    by (simp_all add: body_ops_def predict_body_ops_no_gauge)
  have body: "active_requests (run_ops body_ops ms') = active_requests ms'" for ms'
    using free by (rule run_ops_active_requests)
  have counts: "count_list body_ops ActiveRequestsInc = 0"
    "count_list body_ops ActiveRequestsDec = 0"
    using free by (simp_all add: count_list_0_iff)
  from ops free have "\<exists>body_ops. fst (api_predict_ops pre mdl data) =
        ActiveRequestsInc # body_ops @ [ActiveRequestsDec] \<and>
      ActiveRequestsInc \<notin> set body_ops \<and> ActiveRequestsDec \<notin> set body_ops"
    by blast
  moreover have "count_list (fst (api_predict_ops pre mdl data)) ActiveRequestsInc = 1"
    and "count_list (fst (api_predict_ops pre mdl data)) ActiveRequestsDec = 1"
    by (simp_all add: ops counts)
  moreover have "active_requests (run_ops (butlast (fst (api_predict_ops pre mdl data))) ms) =
     active_requests ms + 1"
    by (simp add: ops butlast_append body)
  moreover have "active_requests (run_ops (fst (api_predict_ops pre mdl data)) ms) =
     active_requests ms"
    by (simp add: ops run_ops_append body)
  ultimately show ?thesis by simp
qed

theorem active_requests_inc_once_dec_once_witness:
  "api_predict_ops (Some interrupted_preprocessor) (Some binary_model) example_input =
     ([ActiveRequestsInc, ActiveRequestsDec], Inl (BaseException ''KeyboardInterrupt'')) \<and>
   count_list (fst (api_predict_ops (Some interrupted_preprocessor) (Some binary_model)
     example_input)) ActiveRequestsInc = 1 \<and>
   count_list (fst (api_predict_ops (Some interrupted_preprocessor) (Some binary_model)
     example_input)) ActiveRequestsDec = 1 \<and>
   active_requests (run_ops (fst (api_predict_ops (Some interrupted_preprocessor)
     (Some binary_model) example_input)) initial_metrics) = 0"
proof -
  have "api_predict_ops (Some interrupted_preprocessor) (Some binary_model) example_input =
     ([ActiveRequestsInc, ActiveRequestsDec], Inl (BaseException ''KeyboardInterrupt''))"
    by (simp add: api_predict_ops_def predict_body_ops_def interrupted_preprocessor_def
        binary_model_def)
  moreover have "active_requests initial_metrics = 0"
    by (simp add: initial_metrics_def)
  ultimately show ?thesis
    using active_requests_inc_once_dec_once [of "Some interrupted_preprocessor"
        "Some binary_model" example_input initial_metrics]
    by simp
qed

text \<open>
  C4, as amended. When \<^verbatim>\<open>joblib.load\<close> raises FileNotFoundError, for the preprocessor
  file or (the preprocessor loaded) for the model file, the loader sets the readiness
  gauge to 0, leaves both globals None and the module goes on. The except clause names
  FileNotFoundError only: the claim as stated, which includes a file that is present but
  corrupt, fails, since any other exception of \<^verbatim>\<open>joblib.load\<close> leaves the module level.
\<close>

theorem load_file_not_found:
  assumes "joblib_load preprocessor_path = Inl (FileNotFoundError msg) \<or>
     (\<exists>p. joblib_load preprocessor_path = Inr p \<and>
          joblib_load model_path = Inl (FileNotFoundError msg))"
  shows "load_artifacts joblib_load ms =
     Inr \<lparr>preprocessor = None, model = None,
          module_metrics = ms\<lparr>model_load_status := 0\<rparr>\<rparr>"
  using assms by (auto simp add: load_artifacts_def load_failed_def)

theorem load_file_not_found_witness:
  "load_artifacts no_files initial_metrics =
     Inr \<lparr>preprocessor = None, model = None,
          module_metrics = initial_metrics\<lparr>model_load_status := 0\<rparr>\<rparr> \<and>
   load_artifacts model_file_missing initial_metrics =
     Inr \<lparr>preprocessor = None, model = None,
          module_metrics = initial_metrics\<lparr>model_load_status := 0\<rparr>\<rparr>"
proof -
  have h1: "no_files preprocessor_path =
        Inl (FileNotFoundError (''No such file or directory: '' @ preprocessor_path)) \<or>
     (\<exists>p. no_files preprocessor_path = Inr p \<and>
          no_files model_path =
            Inl (FileNotFoundError (''No such file or directory: '' @ preprocessor_path)))"
    by (simp add: no_files_def)
  have h2: "model_file_missing preprocessor_path =
        Inl (FileNotFoundError (''No such file or directory: '' @ model_path)) \<or>
     (\<exists>p. model_file_missing preprocessor_path = Inr p \<and>
          model_file_missing model_path =
            Inl (FileNotFoundError (''No such file or directory: '' @ model_path)))"
    by (simp add: model_file_missing_def model_path_def preprocessor_path_def)
  show ?thesis
    using load_file_not_found [OF h1, of initial_metrics]
      load_file_not_found [OF h2, of initial_metrics]
    by simp
qed

text \<open>
  The counterexample to C4 as stated: the preprocessor file is present but is not a
  pickle, \<^verbatim>\<open>joblib.load\<close> raises an exception that is not a FileNotFoundError, and the
  module raises it: no gauge is set and the process does not start.
\<close>

theorem load_corrupt_file_raises:
  "corrupt_preprocessor_file preprocessor_path = Inl (Exception ''invalid load key'') \<and>
   load_artifacts corrupt_preprocessor_file initial_metrics =
     Inl (Exception ''invalid load key'')"
  by (simp add: load_artifacts_def load_failed_def corrupt_preprocessor_file_def)

text \<open>
  C5. When the model or the preprocessor is not loaded (in particular when both are
  None), every call returns the dictionary with the not-loaded message and the metrics
  differ from those before the call in one place: the error counter of
  \<^verbatim>\<open>model_not_loaded\<close> is one higher. The outcome is the same whatever methods an
  artifact that is present has: neither transform nor the model is called.
\<close>

theorem not_loaded_error:
  assumes "py_not mdl \<or> py_not pre"
  shows "api_predict pre mdl ms data =
     (ms\<lparr>prediction_errors := (prediction_errors ms)
           (''model_not_loaded'' := prediction_errors ms ''model_not_loaded'' + 1)\<rparr>,
      Inr [(''error'', PyStr ''Model or preprocessor not loaded. Please check the server logs.'')])"
  using assms
  by (simp add: api_predict_not_loaded inc_error_def inc_label_def not_loaded_response_def)

theorem not_loaded_error_witness:
  "api_predict None None initial_metrics example_input =
     (initial_metrics\<lparr>prediction_errors := (\<lambda>_. 0)(''model_not_loaded'' := 1)\<rparr>,
      Inr [(''error'', PyStr ''Model or preprocessor not loaded. Please check the server logs.'')]) \<and>
   api_predict (Some interrupted_preprocessor) None initial_metrics example_input =
     api_predict None None initial_metrics example_input"
proof -
  have h1: "py_not None \<or> py_not (None :: DataFrame artifact option)" by simp
  have h2: "py_not None \<or> py_not (Some interrupted_preprocessor)" by simp
  show ?thesis
    using not_loaded_error [OF h1, of initial_metrics example_input]
      not_loaded_error [OF h2, of initial_metrics example_input]
    by (simp add: initial_metrics_def)
qed

text \<open>
  C6. When both artifacts are loaded and transform raises an Exception, the handler
  returns (it does not raise) the dictionary whose error field is
  \<^verbatim>\<open>Error during data preprocessing:\<close> followed by the exception's message, and the
  metrics differ from those before the call in one place: the error counter of
  \<^verbatim>\<open>preprocessing_error\<close> is one higher. The outcome is the same for every model: the
  model is not called.
\<close>

theorem preprocessing_error:
  assumes "\<not> py_not (Some m)" "\<not> py_not (Some p)"
    and "transform p [dict data] = Inl e" "isinstance_Exception e"
  shows "api_predict (Some p) (Some m) ms data =
     (ms\<lparr>prediction_errors := (prediction_errors ms)
           (''preprocessing_error'' := prediction_errors ms ''preprocessing_error'' + 1)\<rparr>,
      Inr [(''error'', PyStr (''Error during data preprocessing: '' @ str_exc e))])"
  using assms
  by (simp add: api_predict_def predict_body_loaded inc_error_def inc_label_def
      preprocessing_error_response_def)

theorem preprocessing_error_witness:
  "api_predict (Some failing_preprocessor) (Some binary_model) initial_metrics example_input =
     (initial_metrics\<lparr>prediction_errors := (\<lambda>_. 0)(''preprocessing_error'' := 1)\<rparr>,
      Inr [(''error'', PyStr ''Error during data preprocessing: columns are missing'')])"
proof -
  have h1: "\<not> py_not (Some binary_model)" by (simp add: binary_model_def)
  have h2: "\<not> py_not (Some failing_preprocessor)" by (simp add: failing_preprocessor_def)
  have h3: "transform failing_preprocessor [dict example_input] =
      Inl (Exception ''columns are missing'')"
    by (simp add: failing_preprocessor_def)
  have h4: "isinstance_Exception (Exception ''columns are missing'')" by simp
  show ?thesis
    using preprocessing_error [OF h1 h2 h3 h4, of initial_metrics]
    by (simp add: initial_metrics_def)
qed

text \<open>
  C7. For a binary model (the probability row has two entries, which sum to 1) whose
  predicted class is an index of a largest entry of the row, \<^verbatim>\<open>api/main.py\<close>, which
  reads the row at the predicted class, and \<^verbatim>\<open>src/inference.py\<close>, which takes the
  maximum of the probability matrix, compute the same label and the same confidence from
  the same model input.
\<close>

theorem binary_confidence_agrees:
  assumes "\<not> py_not (Some m)" "\<not> py_not (Some p)"
    and "transform p [dict data] = Inr x"
    and "transform scaler [input_data] = Inr x"
    and "predict m x = Inr (k # ks)"
    and "predict_proba m x = Inr [row]"
    and "length row = 2" "sum_list row = 1"
    and "0 \<le> k" "nat k < length row" "\<forall>y\<in>set row. y \<le> row ! nat k"
  shows "snd (api_predict (Some p) (Some m) ms data) = Inr (success_response k (row ! nat k)) \<and>
         inference_predict m scaler input_data = Inr (k, row ! nat k)"
proof -
  have idx: "getitem row k = Inr (row ! nat k)"
    using assms(9,10) by (rule getitem_in_range)
  have "predict_and_confidence m x = Inr (k, row ! nat k)"
    using assms(5,6) idx by (simp add: predict_and_confidence_Inr getitem_0)
  then have "snd (api_predict (Some p) (Some m) ms data) =
      Inr (success_response k (row ! nat k))"
    by (simp add: api_predict_success [OF assms(1-3)])
  moreover have "inference_predict m scaler input_data = Inr (k, row ! nat k)"
    using assms(4,5,6) array_max_row [OF assms(10,11)]
    by (simp add: inference_predict_def getitem_def)
  ultimately show ?thesis by simp
qed

theorem binary_confidence_agrees_witness:
  "snd (api_predict (Some example_preprocessor) (Some binary_model) initial_metrics
      example_input) = Inr (success_response 1 (4 / 5)) \<and>
   inference_predict binary_model example_scaler [63, 1, 3] = Inr (1, 4 / 5)"
proof -
  have h1: "\<not> py_not (Some binary_model)" by (simp add: binary_model_def)
  have h2: "\<not> py_not (Some example_preprocessor)" by (simp add: example_preprocessor_def)
  have h3: "transform example_preprocessor [dict example_input] = Inr [[1, 0, 1]]"
    by (simp add: example_preprocessor_def)
  have h4: "transform example_scaler [[63, 1, 3]] = Inr [[1, 0, 1]]"
    by (simp add: example_scaler_def)
  have h5: "predict binary_model [[1, 0, 1]] = Inr [1]" by (simp add: binary_model_def)
  have h6: "predict_proba binary_model [[1, 0, 1]] = Inr [[1 / 5, 4 / 5]]"
    by (simp add: binary_model_def)
  have h7: "length [1 / 5, 4 / 5 :: real] = 2" by simp
  have h8: "sum_list [1 / 5, 4 / 5 :: real] = 1" by simp
  have h9: "(0::int) \<le> 1" by simp
  have h10: "nat 1 < length [1 / 5, 4 / 5 :: real]" by simp
  have h11: "\<forall>y\<in>set [1 / 5, 4 / 5 :: real]. y \<le> [1 / 5, 4 / 5] ! nat 1" by simp
  show ?thesis
    using binary_confidence_agrees [OF h1 h2 h3 h4 h5 h6 h7 h8 h9 h10 h11, of initial_metrics]
    by simp
qed

text \<open>
  C8, as amended. In every success dictionary, prediction_label is 1 exactly when
  prediction is \<^verbatim>\<open>Heart Disease\<close>, and prediction is \<^verbatim>\<open>No Heart Disease\<close> exactly when
  prediction_label is not 1. So label 0 gives \<^verbatim>\<open>No Heart Disease\<close>, and for a label
  that is 0 or 1 the label is 0 exactly when prediction is \<^verbatim>\<open>No Heart Disease\<close>. The
  claim as stated fails: line 129 tests for 1 only, and every other label, not 0 alone,
  is answered with \<^verbatim>\<open>No Heart Disease\<close>.
\<close>

theorem label_and_prediction_string:
  assumes "snd (api_predict pre mdl ms data) = Inr resp"
    and "map_of resp ''prediction_label'' = Some (PyInt k)"
  shows "(k = 1 \<longleftrightarrow> map_of resp ''prediction'' = Some (PyStr ''Heart Disease'')) \<and>
         (k \<noteq> 1 \<longleftrightarrow> map_of resp ''prediction'' = Some (PyStr ''No Heart Disease'')) \<and>
         (k = 0 \<or> k = 1 \<longrightarrow>
            (k = 0 \<longleftrightarrow> map_of resp ''prediction'' = Some (PyStr ''No Heart Disease'')))"
proof -
  from assms obtain k' c where "resp = success_response k' c"
    using api_predict_returns_success [of pre mdl ms data resp] by auto
  with assms(2) have "resp = success_response k c"
    by (simp add: map_of_success_response)
  then show ?thesis by (simp add: map_of_success_response)
qed

theorem label_and_prediction_string_witness:
  "snd (api_predict (Some example_preprocessor) (Some binary_model) initial_metrics
      example_input) = Inr (success_response 1 (4 / 5)) \<and>
   map_of (success_response 1 (4 / 5)) ''prediction_label'' = Some (PyInt 1) \<and>
   map_of (success_response 1 (4 / 5)) ''prediction'' = Some (PyStr ''Heart Disease'') \<and>
   map_of (success_response 1 (4 / 5)) ''prediction'' \<noteq> Some (PyStr ''No Heart Disease'')"
proof -
  have h1: "\<not> py_not (Some binary_model)" by (simp add: binary_model_def)
  have h2: "\<not> py_not (Some example_preprocessor)" by (simp add: example_preprocessor_def)
  have h3: "transform example_preprocessor [dict example_input] = Inr [[1, 0, 1]]"
    by (simp add: example_preprocessor_def)
  have h4: "predict_and_confidence binary_model [[1, 0, 1]] = Inr (1, 4 / 5)"
    by (simp add: predict_and_confidence_def binary_model_def getitem_def)
  have r: "snd (api_predict (Some example_preprocessor) (Some binary_model) initial_metrics
      example_input) = Inr (success_response 1 (4 / 5))"
    by (simp add: api_predict_success [OF h1 h2 h3 h4])
  have l: "map_of (success_response 1 (4 / 5)) ''prediction_label'' = Some (PyInt 1)"
    by (simp add: map_of_success_response)
  show ?thesis
    using r l label_and_prediction_string [OF r l] by simp
qed

text \<open>
  The counterexample to C8 as stated: a model over three classes predicts class 2, and
  the handler returns a success dictionary with \<^verbatim>\<open>No Heart Disease\<close> and a label that
  is not 0.
\<close>

theorem three_class_label_two:
  "snd (api_predict (Some example_preprocessor) (Some three_class_model) initial_metrics
      example_input) =
     Inr [(''prediction'', PyStr ''No Heart Disease''), (''prediction_label'', PyInt 2),
          (''confidence'', PyFloat (1 / 2))]"
proof -
  have h1: "\<not> py_not (Some three_class_model)" by (simp add: three_class_model_def)
  have h2: "\<not> py_not (Some example_preprocessor)" by (simp add: example_preprocessor_def)
  have h3: "transform example_preprocessor [dict example_input] = Inr [[1, 0, 1]]"
    by (simp add: example_preprocessor_def)
  have h4: "predict_and_confidence three_class_model [[1, 0, 1]] = Inr (2, 1 / 2)"
    by (simp add: predict_and_confidence_def three_class_model_def getitem_def)
  show ?thesis
    by (simp add: api_predict_success [OF h1 h2 h3 h4] success_response_def)
qed

text \<open>
  C9. The handler's result (the dictionary it returns or the exception it raises) is a
  function of the request and of the loaded preprocessor and model only: two runs that
  start from any two metrics states give the same result.
\<close>

theorem response_independent_of_metrics:
  "snd (api_predict pre mdl ms1 data) = snd (api_predict pre mdl ms2 data)"
  unfolding snd_api_predict by (rule snd_predict_body_metrics)

text \<open>
  C10. A request that returns the success dictionary increments the prediction counter
  of its label (the label as a string) by one, leaves the counter of every other label
  as it was, and adds one observation, the returned confidence, to the histogram. A
  request that returns an error dictionary (model not loaded, preprocessing failure,
  failure of the prediction block) or raises leaves the counter and the histogram as
  they were.
\<close>

theorem prediction_metrics_once:
  assumes "api_predict pre mdl ms data = (ms', result)"
  shows "(\<forall>resp. result = Inr resp \<and>
            keys resp = {''prediction'', ''prediction_label'', ''confidence''} \<longrightarrow>
            (\<exists>k c. map_of resp ''prediction_label'' = Some (PyInt k) \<and>
               map_of resp ''confidence'' = Some (PyFloat c) \<and>
               prediction_counter ms' =
                 (prediction_counter ms)(str_int k := prediction_counter ms (str_int k) + 1) \<and>
               prediction_confidence ms' = prediction_confidence ms @ [c])) \<and>
         (\<forall>resp. result = Inr resp \<and> keys resp = {''error''} \<longrightarrow>
            prediction_counter ms' = prediction_counter ms \<and>
            prediction_confidence ms' = prediction_confidence ms) \<and>
         (\<forall>e. result = Inl e \<longrightarrow>
            prediction_counter ms' = prediction_counter ms \<and>
            prediction_confidence ms' = prediction_confidence ms)"
  using api_predict_outcomes [of pre mdl data ms]
proof (elim disjE exE conjE)
  fix p m x k c
  assume "api_predict pre mdl ms data =
          (ms\<lparr>prediction_counter := inc_label (str_int k) (prediction_counter ms),
              prediction_confidence := observe c (prediction_confidence ms)\<rparr>,
           Inr (success_response k c))"
  with assms have "ms' = ms\<lparr>prediction_counter := inc_label (str_int k) (prediction_counter ms),
              prediction_confidence := observe c (prediction_confidence ms)\<rparr>"
    and "result = Inr (success_response k c)"
    by simp_all
  then show ?thesis
    using success_keys_not_error
    by (simp add: keys_success_response map_of_success_response inc_label_def observe_def)
next
  fix error_type msg
  assume "api_predict pre mdl ms data = (inc_error error_type ms, Inr [(''error'', PyStr msg)])"
  with assms have "ms' = inc_error error_type ms" and "result = Inr [(''error'', PyStr msg)]"
    by simp_all
  then show ?thesis
    using success_keys_not_error
    by (simp add: keys_error inc_error_def eq_commute [of "{''error''}"])
next
  fix e
  assume "api_predict pre mdl ms data = (ms, Inl e)"
  with assms have "ms' = ms" and "result = Inl e" by simp_all
  then show ?thesis by simp
qed

theorem prediction_metrics_once_witness:
  "prediction_counter (fst (api_predict (Some example_preprocessor) (Some binary_model)
       initial_metrics example_input)) = (\<lambda>_. 0)(''1'' := 1) \<and>
   prediction_confidence (fst (api_predict (Some example_preprocessor) (Some binary_model)
       initial_metrics example_input)) = [4 / 5]"
proof -
  have h1: "\<not> py_not (Some binary_model)" by (simp add: binary_model_def)
  have h2: "\<not> py_not (Some example_preprocessor)" by (simp add: example_preprocessor_def)
  have h3: "transform example_preprocessor [dict example_input] = Inr [[1, 0, 1]]"
    by (simp add: example_preprocessor_def)
  have h4: "predict_and_confidence binary_model [[1, 0, 1]] = Inr (1, 4 / 5)"
    by (simp add: predict_and_confidence_def binary_model_def getitem_def)
  define ms' where "ms' = fst (api_predict (Some example_preprocessor) (Some binary_model)
       initial_metrics example_input)"
  have r: "api_predict (Some example_preprocessor) (Some binary_model) initial_metrics
      example_input = (ms', Inr (success_response 1 (4 / 5)))"
    by (simp add: ms'_def api_predict_success [OF h1 h2 h3 h4])
  have s: "Inr (success_response 1 (4 / 5)) = (Inr (success_response 1 (4 / 5)) :: py_exception + py_dict) \<and>
      keys (success_response 1 (4 / 5)) = {''prediction'', ''prediction_label'', ''confidence''}"
    by (simp add: keys_success_response)
  have "\<exists>k c. map_of (success_response 1 (4 / 5)) ''prediction_label'' = Some (PyInt k) \<and>
               map_of (success_response 1 (4 / 5)) ''confidence'' = Some (PyFloat c) \<and>
               prediction_counter ms' =
                 (prediction_counter initial_metrics)
                   (str_int k := prediction_counter initial_metrics (str_int k) + 1) \<and>
               prediction_confidence ms' = prediction_confidence initial_metrics @ [c]"
    using prediction_metrics_once [OF r, THEN conjunct1, rule_format, OF s] .
  then have "prediction_counter ms' = (\<lambda>_. 0)(str_int 1 := 1) \<and>
      prediction_confidence ms' = [4 / 5]"
    by (auto simp add: map_of_success_response initial_metrics_def)
  then show ?thesis
    by (simp add: ms'_def str_int_def str_nat.simps)
qed

end
